theory Spec2Isabelle
  imports Main
begin

section \<open>Logging and result helpers of the container entrypoint (utility.py)\<close>

text \<open>
  The module \<^verbatim>\<open>docker_entrypoint/_libs/utility.py\<close> is a handful of functions over
  the \<^verbatim>\<open>on_rails\<close> Result type. Python is dynamically typed, so arguments are
  values of one universe \<open>pyval\<close>; a method call on a value of the wrong kind raises
  \<^verbatim>\<open>AttributeError\<close>, and every raise is a branch of the model. The only effect
  is the sequence of calls made on the logger, kept as an explicit trace.
\<close>

subsection \<open>Values, results and failure details\<close>

datatype exn = AttributeError | TypeError

text \<open>
  Modelled from the spec: the class \<^verbatim>\<open>DockerEnvironments\<close>
  (\<^verbatim>\<open>docker_entrypoint/_libs/docker_environments.py\<close>) is missing from the sources.
  Section 3 of the spec gives it as a plain record of five strings; the field names are
  the ones \<^verbatim>\<open>_get_support_message\<close> reads.
\<close>

record DockerEnvironments =
  maintainer :: string
  docker_version :: string
  build_date :: string
  vcs_url :: string
  bug_report :: string

text \<open>
  Modelled from the spec: \<^verbatim>\<open>Result\<close> and \<^verbatim>\<open>ValidationError\<close> belong to the
  external library \<^verbatim>\<open>on_rails\<close>, and \<^verbatim>\<open>FailResult\<close>
  (\<^verbatim>\<open>docker_entrypoint/_libs/ResultDetails/FailResult.py\<close>) is missing from the sources.
  A Result is \<open>Ok value\<close>, where the value may be \<open>PyNone\<close>, or \<open>Fail detail\<close>.
  A \<open>ValidationError\<close> carries title, message, code and supporting data (\<^verbatim>\<open>more_data\<close>);
  a \<open>FailResult\<close> carries a numeric code and an optional message; an \<open>ExceptionError\<close> is
  the detail the library builds from a caught exception.

  \<open>PyObject attrs\<close> is an instance of a user class with the instance dictionary \<open>attrs\<close>
  (in insertion order), \<open>PyLogger\<close> a \<^verbatim>\<open>logging.Logger\<close>, \<open>PyCallable\<close> a function
  object.
\<close>

datatype pyval =
    PyNone
  | PyStr string
  | PyInt int
  | PyLogger
  | PyCallable
  | PyObject "(string \<times> pyval) list"
  | PyEnvironments DockerEnvironments
  | PyResult result
and result =
    Ok pyval
  | Fail detail
and detail =
    ValidationError string "string option" int "pyval list"
  | FailResult int "string option"
  | ExceptionError exn

fun success :: "result \<Rightarrow> bool" where
  "success (Ok v) = True"
| "success (Fail d) = False"

fun detail_message :: "detail \<Rightarrow> string option" where
  "detail_message (ValidationError t m c md) = m"
| "detail_message (FailResult c m) = m"
| "detail_message (ExceptionError e) = None"

fun detail_code :: "detail \<Rightarrow> int" where
  "detail_code (ValidationError t m c md) = c"
| "detail_code (FailResult c m) = c"
| "detail_code (ExceptionError e) = 500"

fun more_data :: "detail \<Rightarrow> pyval list" where
  "more_data (ValidationError t m c md) = md"
| "more_data (FailResult c m) = []"
| "more_data (ExceptionError e) = []"

fun is_validation_error :: "detail \<Rightarrow> bool" where
  "is_validation_error (ValidationError t m c md) = True"
| "is_validation_error (FailResult c m) = False"
| "is_validation_error (ExceptionError e) = False"

text \<open>
  The call \<^verbatim>\<open>ValidationError(message=m, more_data=md)\<close>: the library's defaults give the title
  and the code 400 (the tests assert both).
\<close>

definition validation_error :: "string \<Rightarrow> pyval list \<Rightarrow> detail" where
  "validation_error m md =
     ValidationError ''One or more validation errors occurred'' (Some m) 400 md"

subsection \<open>Text of a value\<close>

text \<open>
  What the Python runtime and the library leave open is a parameter of the model:
  \<^verbatim>\<open>repr\<close> of a Result, \<^verbatim>\<open>str\<close> of an object that is not a string, an integer or
  \<^verbatim>\<open>None\<close>, and the instance dictionary of a library object.
\<close>

record runtime =
  repr_result :: "result \<Rightarrow> string"
  str_of :: "pyval \<Rightarrow> string"
  dict_of :: "pyval \<Rightarrow> (string \<times> pyval) list"

definition digit_char :: "nat \<Rightarrow> char" where
  "digit_char d = ''0123456789'' ! d"

fun show_nat :: "nat \<Rightarrow> string" where
  "show_nat n =
     (if n < 10 then [digit_char n] else show_nat (n div 10) @ [digit_char (n mod 10)])"

definition show_int :: "int \<Rightarrow> string" where
  "show_int i = (if i < 0 then CHR ''-'' # show_nat (nat (- i)) else show_nat (nat i))"

text \<open>The text an f-string puts in for \<^verbatim>\<open>{v}\<close>, that is \<^verbatim>\<open>str(v)\<close>.\<close>

fun py_str :: "runtime \<Rightarrow> pyval \<Rightarrow> string" where
  "py_str rt PyNone = ''None''"
| "py_str rt (PyStr s) = s"
| "py_str rt (PyInt i) = show_int i"
| "py_str rt v = str_of rt v"



subsection \<open>The logger\<close>

text \<open>
  The logger boundary: the calls \<^verbatim>\<open>info(msg)\<close>, \<^verbatim>\<open>error(msg)\<close> and
  \<^verbatim>\<open>log(level, msg)\<close> made on the logger, in order. A call on anything that is not a
  logger raises \<^verbatim>\<open>AttributeError\<close> and records nothing.
\<close>

datatype log_call = Info pyval | Error pyval | Log int pyval

type_synonym logs = "log_call list"

type_synonym 'a comp = "logs \<Rightarrow> (exn + 'a) \<times> logs"

fun logger_info :: "pyval \<Rightarrow> pyval \<Rightarrow> pyval comp" where
  "logger_info PyLogger msg lg = (Inr PyNone, lg @ [Info msg])"
| "logger_info l msg lg = (Inl AttributeError, lg)"

fun logger_error :: "pyval \<Rightarrow> pyval \<Rightarrow> pyval comp" where
  "logger_error PyLogger msg lg = (Inr PyNone, lg @ [Error msg])"
| "logger_error l msg lg = (Inl AttributeError, lg)"


subsection \<open>The combinators of on_rails\<close>

text \<open>
  Modelled from the spec: the library \<^verbatim>\<open>on_rails\<close> is not part of the repository; the
  spec (sections 2 and 3) names its Result type as an external collaborator with
  combinators that chain follow-up actions on success or on failure. The definitions
  below follow the documented behaviour of the library, as far as utility.py uses it:
  \<^item> a returned value that is not a Result is wrapped as a successful Result;
  \<^item> a function run by the library that raises gives a failure with the exception as detail;
  \<^item> \<^verbatim>\<open>def_result()\<close> does both for the decorated function;
  \<^item> \<^verbatim>\<open>on_success(f)\<close> runs \<open>f\<close> on the value of a success and returns what \<open>f\<close> gives,
    and passes a failure on;
  \<^item> \<^verbatim>\<open>on_success_operate_when(c, f)\<close> runs \<open>f\<close> on the value of a success when \<open>c\<close> holds
    of it and returns what \<open>f\<close> gives, returns the success as it is when \<open>c\<close> does not
    hold, and passes a failure on;
  \<^item> \<^verbatim>\<open>on_fail(f)\<close> runs \<open>f\<close> on a failed result and returns what \<open>f\<close> gives, and passes
    a success on.
\<close>

fun convert_to_result :: "pyval \<Rightarrow> result" where
  "convert_to_result (PyResult r) = r"
| "convert_to_result v = Ok v"

definition try_func :: "pyval comp \<Rightarrow> logs \<Rightarrow> result \<times> logs" where
  "try_func f lg =
     (case f lg of
        (Inl e, lg') \<Rightarrow> (Fail (ExceptionError e), lg')
      | (Inr v, lg') \<Rightarrow> (convert_to_result v, lg'))"

definition def_result :: "pyval comp \<Rightarrow> logs \<Rightarrow> result \<times> logs" where
  "def_result body lg = try_func body lg"

fun on_success :: "(pyval \<Rightarrow> pyval comp) \<Rightarrow> result \<Rightarrow> logs \<Rightarrow> result \<times> logs" where
  "on_success f (Ok v) lg = try_func (f v) lg"
| "on_success f (Fail d) lg = (Fail d, lg)"

fun on_success_operate_when ::
  "(pyval \<Rightarrow> bool) \<Rightarrow> (pyval \<Rightarrow> pyval comp) \<Rightarrow> result \<Rightarrow> logs \<Rightarrow> result \<times> logs" where
  "on_success_operate_when c f (Ok v) lg =
     (if c v then try_func (f v) lg else (Ok v, lg))"
| "on_success_operate_when c f (Fail d) lg = (Fail d, lg)"

fun on_fail :: "(result \<Rightarrow> pyval comp) \<Rightarrow> result \<Rightarrow> logs \<Rightarrow> result \<times> logs" where
  "on_fail f (Ok v) lg = (Ok v, lg)"
| "on_fail f (Fail d) lg = try_func (f (Fail d)) lg"

text \<open>A call of a decorated function inside another body: it returns a Result object.\<close>

definition returning :: "(logs \<Rightarrow> result \<times> logs) \<Rightarrow> pyval comp" where
  "returning m lg = (case m lg of (r, lg') \<Rightarrow> (Inr (PyResult r), lg'))"

subsection \<open>The environment\<close>

text \<open>
  Modelled from the spec: \<^verbatim>\<open>DockerEnvironments.get_environments\<close> is missing from the
  sources. Spec 4.3: each field defaults to "No Data!" (the version to "latest") when the
  underlying environment value is absent, and the lookup always produces defaulted
  strings. The raw environment holds the five values, \<open>None\<close> for a variable that is not
  set.
\<close>

record raw_environment =
  env_maintainer :: "string option"
  env_docker_version :: "string option"
  env_build_date :: "string option"
  env_vcs_url :: "string option"
  env_bug_report :: "string option"

definition or_default :: "string option \<Rightarrow> string \<Rightarrow> string" where
  "or_default x d = (case x of None \<Rightarrow> d | Some s \<Rightarrow> s)"

definition read_environments :: "raw_environment \<Rightarrow> DockerEnvironments" where
  "read_environments env =
     \<lparr> maintainer = or_default (env_maintainer env) ''No Data!'',
       docker_version = or_default (env_docker_version env) ''latest'',
       build_date = or_default (env_build_date env) ''No Data!'',
       vcs_url = or_default (env_vcs_url env) ''No Data!'',
       bug_report = or_default (env_bug_report env) ''No Data!'' \<rparr>"

definition get_environments :: "raw_environment \<Rightarrow> result" where
  "get_environments env = Ok (PyEnvironments (read_environments env))"

definition no_environment :: raw_environment where
  "no_environment =
     \<lparr> env_maintainer = None, env_docker_version = None, env_build_date = None,
       env_vcs_url = None, env_bug_report = None \<rparr>"

subsection \<open>utility.py\<close>

text \<open>\<^verbatim>\<open>convert_code_to_result\<close>, lines 119 to 131. Python's \<^verbatim>\<open>int\<close> is unbounded.\<close>

definition convert_code_to_result_body :: "int \<Rightarrow> pyval comp" where
  "convert_code_to_result_body code lg =
     (if code = 0 then (Inr (PyResult (Ok PyNone)), lg)
      else (Inr (PyResult (Fail (FailResult code None))), lg))"

definition convert_code_to_result :: "int \<Rightarrow> logs \<Rightarrow> result \<times> logs" where
  "convert_code_to_result code = def_result (convert_code_to_result_body code)"

text \<open>
  \<^verbatim>\<open>_get_support_message\<close>, lines 78 to 86 (an Isabelle name cannot start with an
  underscore). Reading a field of something that is not the environments object raises
  \<^verbatim>\<open>AttributeError\<close>.
\<close>

definition support_text :: "DockerEnvironments \<Rightarrow> string" where
  "support_text e =
     ''Support:\<newline>'' @
     CHR 0x09 # ''Maintainer: '' @ maintainer e @ ''\<newline>'' @
     CHR 0x09 # ''Docker Version: '' @ docker_version e @ ''\<newline>'' @
     CHR 0x09 # ''Build Date: '' @ build_date e @ ''\<newline>'' @
     CHR 0x09 # ''Repository: '' @ vcs_url e @ ''\<newline>'' @
     CHR 0x09 # ''Report Bug: '' @ bug_report e @ ''\<newline>''"

fun get_support_message_inner_body :: "pyval \<Rightarrow> pyval comp" where
  "get_support_message_inner_body (PyEnvironments e) lg =
     (Inr (PyResult (Ok (PyStr (support_text e)))), lg)"
| "get_support_message_inner_body v lg = (Inl AttributeError, lg)"

definition get_support_message_inner :: "pyval \<Rightarrow> logs \<Rightarrow> result \<times> logs" where
  "get_support_message_inner environments =
     def_result (get_support_message_inner_body environments)"

text \<open>\<^verbatim>\<open>get_support_message\<close>, lines 66 to 75.\<close>

definition get_support_message_body :: "raw_environment \<Rightarrow> pyval comp" where
  "get_support_message_body env =
     returning
       (on_success (\<lambda>environments. returning (get_support_message_inner environments))
          (get_environments env))"

definition get_support_message :: "raw_environment \<Rightarrow> logs \<Rightarrow> result \<times> logs" where
  "get_support_message env = def_result (get_support_message_body env)"

text \<open>\<^verbatim>\<open>log_error\<close>, lines 42 to 63.\<close>

definition report_invitation :: string where
  "report_invitation =
     ''Please report this error to help others who use this program.\<newline>''"

definition error_text :: "runtime \<Rightarrow> result \<Rightarrow> string" where
  "error_text rt r = ''An error occurred:\<newline>'' @ repr_result rt r @ ''\<newline>''"

fun log_error_body :: "runtime \<Rightarrow> raw_environment \<Rightarrow> pyval \<Rightarrow> pyval \<Rightarrow> pyval comp" where
  "log_error_body rt env logger (PyResult (Ok v)) lg =
     (Inr (PyResult (Fail (validation_error
        ''Expected failure result but got success result!'' [PyResult (Ok v)]))), lg)"
| "log_error_body rt env logger (PyResult (Fail d)) lg =
     (case logger_error logger (PyStr (error_text rt (Fail d))) lg of
        (Inl e, lg1) \<Rightarrow> (Inl e, lg1)
      | (Inr u, lg1) \<Rightarrow>
          (case get_support_message env lg1 of
             (r, lg2) \<Rightarrow>
               returning
                 (on_success
                    (\<lambda>support_message.
                       logger_info logger (PyStr (report_invitation @ py_str rt support_message)))
                    r) lg2))"
| "log_error_body rt env logger v lg = (Inl AttributeError, lg)"

definition log_error ::
  "runtime \<Rightarrow> raw_environment \<Rightarrow> pyval \<Rightarrow> pyval \<Rightarrow> logs \<Rightarrow> result \<times> logs" where
  "log_error rt env logger fail_result = def_result (log_error_body rt env logger fail_result)"

text \<open>\<^verbatim>\<open>log_result\<close>, lines 24 to 39.\<close>

fun log_result_body :: "runtime \<Rightarrow> raw_environment \<Rightarrow> pyval \<Rightarrow> pyval \<Rightarrow> pyval comp" where
  "log_result_body rt env logger (PyResult r) lg =
     (case on_success_operate_when (\<lambda>v. v \<noteq> PyNone) (\<lambda>v. logger_info logger v) r lg of
        (r1, lg1) \<Rightarrow>
          returning
            (on_fail (\<lambda>prev_result. returning (log_error rt env logger (PyResult prev_result)))
               r1) lg1)"
| "log_result_body rt env logger v lg = (Inl AttributeError, lg)"

definition log_result ::
  "runtime \<Rightarrow> raw_environment \<Rightarrow> pyval \<Rightarrow> pyval \<Rightarrow> logs \<Rightarrow> result \<times> logs" where
  "log_result rt env logger result = def_result (log_result_body rt env logger result)"





subsection \<open>The Object Property Formatter\<close>

text \<open>
  Modelled from the spec: \<^verbatim>\<open>class_properties_to_str\<close>, the Object Property Formatter
  of spec 4.4, is missing from utility.py; only its tests are there
  (\<^verbatim>\<open>tests/test_lib/test_utility.py\<close>, lines 138 to 175), and
  \<^verbatim>\<open>log_class_properties\<close> is the wrapper that logs. After the spec: the object is
  absent (\<open>None\<close>) or given by its attributes in insertion order; a missing object fails
  with "The class object is required."; a supplied title that is not a string fails with
  "The message must be a string."; the public attributes that are not callable are
  rendered as \<^verbatim>\<open>name: value\<close>, one per line; a title that is not blank is put first as
  \<^verbatim>\<open>title:\<close> and every line is then indented by a tab; the text is the success value and
  the logger is not touched.
\<close>

definition is_space :: "char \<Rightarrow> bool" where
  "is_space c =
     (c = CHR '' '' \<or> c = CHR 0x09 \<or> c = CHR ''\<newline>'' \<or> c = CHR 0x0B \<or> c = CHR 0x0C
      \<or> c = CHR 0x0D)"

definition blank :: "string \<Rightarrow> bool" where
  "blank s = list_all is_space s"

fun is_public :: "string \<Rightarrow> bool" where
  "is_public [] = True"
| "is_public (c # cs) = (c \<noteq> CHR ''_'')"

fun callable :: "pyval \<Rightarrow> bool" where
  "callable PyCallable = True"
| "callable v = False"

definition public_attributes :: "(string \<times> pyval) list \<Rightarrow> (string \<times> pyval) list" where
  "public_attributes attrs = filter (\<lambda>kv. is_public (fst kv) \<and> \<not> callable (snd kv)) attrs"

definition plain_line :: "runtime \<Rightarrow> string \<times> pyval \<Rightarrow> string" where
  "plain_line rt kv = fst kv @ '': '' @ py_str rt (snd kv) @ ''\<newline>''"

definition indented_line :: "runtime \<Rightarrow> string \<times> pyval \<Rightarrow> string" where
  "indented_line rt kv = CHR 0x09 # plain_line rt kv"

fun class_properties_to_str ::
  "runtime \<Rightarrow> (string \<times> pyval) list option \<Rightarrow> pyval \<Rightarrow> logs \<Rightarrow> result \<times> logs" where
  "class_properties_to_str rt None title lg =
     (Fail (validation_error ''The class object is required.'' []), lg)"
| "class_properties_to_str rt (Some attrs) PyNone lg =
     (Ok (PyStr (concat (map (plain_line rt) (public_attributes attrs)))), lg)"
| "class_properties_to_str rt (Some attrs) (PyStr t) lg =
     (if blank t then (Ok (PyStr (concat (map (plain_line rt) (public_attributes attrs)))), lg)
      else (Ok (PyStr (t @ '':\<newline>'' @
              concat (map (indented_line rt) (public_attributes attrs)))), lg))"
| "class_properties_to_str rt (Some attrs) title lg =
     (Fail (validation_error ''The message must be a string.'' []), lg)"

text \<open>Whether a value is a string (\<^verbatim>\<open>isinstance(v, str)\<close>).\<close>

fun is_str :: "pyval \<Rightarrow> bool" where
  "is_str (PyStr s) = True"
| "is_str v = False"

subsection \<open>Concrete inputs\<close>

text \<open>
  A runtime for evaluating the functions on concrete inputs, and the object of the tests:
  an instance with the attributes \<^verbatim>\<open>prop1 = "prop1"\<close> and \<^verbatim>\<open>prop2 = "prop2"\<close>.
\<close>

definition sample_runtime :: runtime where
  "sample_runtime =
     \<lparr> repr_result = (\<lambda>r. ''Result''), str_of = (\<lambda>v. ''object''), dict_of = (\<lambda>v. []) \<rparr>"

definition fake_attributes :: "(string \<times> pyval) list" where
  "fake_attributes = [(''prop1'', PyStr ''prop1''), (''prop2'', PyStr ''prop2'')]"


section \<open>Properties\<close>

subsection \<open>Exit-code converter\<close>

text \<open>
  Claim C2. For every integer code, \<^verbatim>\<open>convert_code_to_result\<close> returns the success that
  carries no value exactly when the code is 0; for every other integer, negative ones
  too, it returns the failure whose FailResult detail carries that same code. No call is
  made on the logger.
\<close>

theorem convert_code_to_result_code:
  "(fst (convert_code_to_result code lg) = Ok PyNone \<longleftrightarrow> code = 0) \<and>
   (success (fst (convert_code_to_result code lg)) \<longleftrightarrow> code = 0) \<and>
   (code \<noteq> 0 \<longrightarrow>
      fst (convert_code_to_result code lg) = Fail (FailResult code None) \<and>
      detail_code (FailResult code None) = code) \<and>
   snd (convert_code_to_result code lg) = lg"
  by (simp add: convert_code_to_result_def convert_code_to_result_body_def def_result_def
      try_func_def)

theorem convert_code_to_result_code_witness:
  "fst (convert_code_to_result 0 []) = Ok PyNone \<and>
   (5::int) \<noteq> 0 \<and> fst (convert_code_to_result 5 []) = Fail (FailResult 5 None) \<and>
   (- 3::int) \<noteq> 0 \<and> fst (convert_code_to_result (- 3) []) = Fail (FailResult (- 3) None)"
  using convert_code_to_result_code [of 0 "[]"] convert_code_to_result_code [of 5 "[]"]
    convert_code_to_result_code [of "- 3" "[]"]
  by simp

subsection \<open>Support message\<close>

text \<open>
  The decorated functions unfold to their bodies: \<^verbatim>\<open>_get_support_message\<close> on an
  environments object gives the text, and \<^verbatim>\<open>get_support_message\<close> passes the record of
  the environment lookup to it. Neither touches the logger.
\<close>

lemma get_support_message_inner_value:
  "get_support_message_inner (PyEnvironments e) lg = (Ok (PyStr (support_text e)), lg)"
  by (simp add: get_support_message_inner_def def_result_def try_func_def)

lemma get_support_message_value:
  "get_support_message env lg = (Ok (PyStr (support_text (read_environments env))), lg)"
proof -
  have "get_support_message_body env lg =
      (Inr (PyResult (Ok (PyStr (support_text (read_environments env))))), lg)"
    by (simp add: get_support_message_body_def get_environments_def returning_def try_func_def
        get_support_message_inner_value)
  then show ?thesis
    by (simp add: get_support_message_def def_result_def try_func_def)
qed

text \<open>
  Claim C8. With no environment data set, \<^verbatim>\<open>get_support_message\<close> returns the success
  whose value is the block "Support:" with the five tab-indented lines Maintainer,
  Docker Version, Build Date, Repository and Report Bug, where the version reads "latest"
  and every other field "No Data!". For every environments record the message has this
  format with the fields of the record put in, and \<^verbatim>\<open>get_support_message\<close> is that
  format applied to the record the environment lookup gives.
\<close>

theorem get_support_message_format:
  "get_support_message no_environment lg =
     (Ok (PyStr (''Support:\<newline>'' @ CHR 0x09 # ''Maintainer: No Data!\<newline>'' @
            CHR 0x09 # ''Docker Version: latest\<newline>'' @
            CHR 0x09 # ''Build Date: No Data!\<newline>'' @
            CHR 0x09 # ''Repository: No Data!\<newline>'' @
            CHR 0x09 # ''Report Bug: No Data!\<newline>'')), lg) \<and>
   get_support_message_inner (PyEnvironments e) lg =
     (Ok (PyStr (''Support:\<newline>'' @
            CHR 0x09 # ''Maintainer: '' @ maintainer e @ ''\<newline>'' @
            CHR 0x09 # ''Docker Version: '' @ docker_version e @ ''\<newline>'' @
            CHR 0x09 # ''Build Date: '' @ build_date e @ ''\<newline>'' @
            CHR 0x09 # ''Repository: '' @ vcs_url e @ ''\<newline>'' @
            CHR 0x09 # ''Report Bug: '' @ bug_report e @ ''\<newline>'')), lg) \<and>
   get_support_message env lg =
     get_support_message_inner (PyEnvironments (read_environments env)) lg"
proof (intro conjI)
  have "read_environments no_environment =
      \<lparr> maintainer = ''No Data!'', docker_version = ''latest'', build_date = ''No Data!'',
        vcs_url = ''No Data!'', bug_report = ''No Data!'' \<rparr>"
    by (simp add: read_environments_def no_environment_def or_default_def)
  then show "get_support_message no_environment lg =
     (Ok (PyStr (''Support:\<newline>'' @ CHR 0x09 # ''Maintainer: No Data!\<newline>'' @
            CHR 0x09 # ''Docker Version: latest\<newline>'' @
            CHR 0x09 # ''Build Date: No Data!\<newline>'' @
            CHR 0x09 # ''Repository: No Data!\<newline>'' @
            CHR 0x09 # ''Report Bug: No Data!\<newline>'')), lg)"
    by (simp add: get_support_message_value support_text_def)
next
  show "get_support_message_inner (PyEnvironments e) lg =
     (Ok (PyStr (''Support:\<newline>'' @
            CHR 0x09 # ''Maintainer: '' @ maintainer e @ ''\<newline>'' @
            CHR 0x09 # ''Docker Version: '' @ docker_version e @ ''\<newline>'' @
            CHR 0x09 # ''Build Date: '' @ build_date e @ ''\<newline>'' @
            CHR 0x09 # ''Repository: '' @ vcs_url e @ ''\<newline>'' @
            CHR 0x09 # ''Report Bug: '' @ bug_report e @ ''\<newline>'')), lg)"
    by (simp add: get_support_message_inner_value support_text_def)
next
  show "get_support_message env lg =
     get_support_message_inner (PyEnvironments (read_environments env)) lg"
    by (simp add: get_support_message_value get_support_message_inner_value)
qed

subsection \<open>Error logger\<close>

text \<open>
  Claim C4. For every successful Result passed to \<^verbatim>\<open>log_error\<close> with a valid logger,
  the function returns a failure whose detail is a ValidationError with the message
  "Expected failure result but got success result!" and with the Result it was given as
  supporting data, and it makes no call on the logger.
\<close>

theorem log_error_success_result:
  "log_error rt env PyLogger (PyResult (Ok v)) lg =
     (Fail (ValidationError ''One or more validation errors occurred''
              (Some ''Expected failure result but got success result!'') 400
              [PyResult (Ok v)]), lg)"
  by (simp add: log_error_def def_result_def try_func_def validation_error_def)

text \<open>
  Claim C5. For every failure Result \<open>F\<close> passed to \<^verbatim>\<open>log_error\<close> with a valid logger, the
  function makes exactly two calls on the logger: first \<^verbatim>\<open>error\<close> with "An error
  occurred:", a line break, the representation of \<open>F\<close> and a line break; then
  \<^verbatim>\<open>info\<close> with the invitation to report followed by the Support Message. It returns the
  success that carries no value, whatever the detail of \<open>F\<close> is.
\<close>

lemma log_error_on_failure:
  "log_error rt env PyLogger (PyResult (Fail d)) lg =
     (Ok PyNone,
      lg @ [Error (PyStr (error_text rt (Fail d))),
            Info (PyStr (report_invitation @ support_text (read_environments env)))])"
proof -
  have "log_error_body rt env PyLogger (PyResult (Fail d)) lg =
      (Inr (PyResult (Ok PyNone)),
       lg @ [Error (PyStr (error_text rt (Fail d))),
             Info (PyStr (report_invitation @ support_text (read_environments env)))])"
    by (simp add: get_support_message_value returning_def try_func_def)
  then show ?thesis
    by (simp add: log_error_def def_result_def try_func_def)
qed

theorem log_error_failure_result:
  "\<exists>m. get_support_message env lg = (Ok (PyStr m), lg) \<and>
     log_error rt env PyLogger (PyResult (Fail d)) lg =
       (Ok PyNone,
        lg @ [Error (PyStr (''An error occurred:\<newline>'' @ repr_result rt (Fail d) @ ''\<newline>'')),
              Info (PyStr (''Please report this error to help others who use this program.\<newline>''
                     @ m))])"
proof (intro exI conjI)
  show "get_support_message env lg = (Ok (PyStr (support_text (read_environments env))), lg)"
    by (rule get_support_message_value)
  show "log_error rt env PyLogger (PyResult (Fail d)) lg =
       (Ok PyNone,
        lg @ [Error (PyStr (''An error occurred:\<newline>'' @ repr_result rt (Fail d) @ ''\<newline>'')),
              Info (PyStr (''Please report this error to help others who use this program.\<newline>''
                     @ support_text (read_environments env)))])"
    using log_error_on_failure [of rt env d lg]
    by (simp add: error_text_def report_invitation_def)
qed

subsection \<open>Result logger\<close>



text \<open>
  Claim C7. For every failure Result \<open>F\<close> given to \<^verbatim>\<open>log_result\<close> with a valid logger, the
  calls made on the logger are those of \<^verbatim>\<open>log_error\<close> on \<open>F\<close>, and the Result given is
  returned unchanged. The first half holds. The second does not: \<^verbatim>\<open>on_fail\<close> returns
  what \<^verbatim>\<open>log_error\<close> returns, which is the success without a value, so the failure is
  turned into a success; the tests \<^verbatim>\<open>test_log_result_expected_fail\<close> and
  \<^verbatim>\<open>test_log_result_unexpected_fail\<close> expect a failure back.
\<close>

theorem log_result_failure_not_passed_through:
  "log_result rt env PyLogger (PyResult (Fail d)) lg =
     log_error rt env PyLogger (PyResult (Fail d)) lg \<and>
   fst (log_result rt env PyLogger (PyResult (Fail d)) lg) = Ok PyNone \<and>
   fst (log_result rt env PyLogger (PyResult (Fail d)) lg) \<noteq> Fail d"
proof -
  have "log_result_body rt env PyLogger (PyResult (Fail d)) lg =
      returning (log_error rt env PyLogger (PyResult (Fail d))) lg"
    by (simp add: returning_def try_func_def split: prod.splits)
  then have same: "log_result rt env PyLogger (PyResult (Fail d)) lg =
      log_error rt env PyLogger (PyResult (Fail d)) lg"
    by (simp add: log_result_def def_result_def try_func_def returning_def split: prod.splits)
  then show ?thesis
    by (simp add: log_error_on_failure)
qed

subsection \<open>Missing arguments\<close>

text \<open>
  Claim C1. When the logger is absent, or the result is absent or not a Result,
  \<^verbatim>\<open>log_result\<close> and \<^verbatim>\<open>log_error\<close> should return a failure whose detail is a
  ValidationError with code 400 and a fixed message, without logging. The functions of
  utility.py check neither argument. Without a logger, a success without a value is
  returned as it is; an absent result makes the body raise \<^verbatim>\<open>AttributeError\<close>, which
  \<^verbatim>\<open>def_result\<close> turns into a failure whose detail is the exception, not a
  ValidationError. The tests \<^verbatim>\<open>test_log_result_not_give_logger\<close>,
  \<^verbatim>\<open>test_log_result_give_none_result\<close>, \<^verbatim>\<open>test_log_error_not_give_logger\<close> and
  \<^verbatim>\<open>test_log_error_give_none_result\<close> expect the validation failure.
\<close>

theorem log_functions_without_validation:
  "log_result rt env PyNone (PyResult (Ok PyNone)) lg = (Ok PyNone, lg) \<and>
   log_result rt env PyNone PyNone lg = (Fail (ExceptionError AttributeError), lg) \<and>
   log_result rt env PyLogger PyNone lg = (Fail (ExceptionError AttributeError), lg) \<and>
   log_error rt env PyNone PyNone lg = (Fail (ExceptionError AttributeError), lg) \<and>
   log_error rt env PyLogger PyNone lg = (Fail (ExceptionError AttributeError), lg) \<and>
   \<not> is_validation_error (ExceptionError AttributeError)"
  by (simp add: log_result_def log_error_def def_result_def try_func_def returning_def)

subsection \<open>Object Property Formatter\<close>

text \<open>
  Claim C3. For every object whose public fields are \<^verbatim>\<open>prop1 = "prop1"\<close> and
  \<^verbatim>\<open>prop2 = "prop2"\<close>, the formatter returns the text as the success value and leaves the
  logger alone: with no title the two lines \<^verbatim>\<open>prop1: prop1\<close> and \<^verbatim>\<open>prop2: prop2\<close>; with
  the title "message" the line \<^verbatim>\<open>message:\<close> followed by the two lines, each indented by
  a tab; with a blank title the same as with no title.
\<close>

theorem class_properties_to_str_text:
  assumes "public_attributes attrs = [(''prop1'', PyStr ''prop1''), (''prop2'', PyStr ''prop2'')]"
  shows "class_properties_to_str rt (Some attrs) PyNone lg =
           (Ok (PyStr ''prop1: prop1\<newline>prop2: prop2\<newline>''), lg) \<and>
         class_properties_to_str rt (Some attrs) (PyStr ''message'') lg =
           (Ok (PyStr (''message:\<newline>'' @ CHR 0x09 # ''prop1: prop1\<newline>'' @
                  CHR 0x09 # ''prop2: prop2\<newline>'')), lg) \<and>
         (blank t \<longrightarrow>
            class_properties_to_str rt (Some attrs) (PyStr t) lg =
              class_properties_to_str rt (Some attrs) PyNone lg)"
  using assms by (simp add: plain_line_def indented_line_def blank_def is_space_def)

theorem class_properties_to_str_text_witness:
  "public_attributes
     ((''_hidden'', PyInt 1) # (''prop1'', PyStr ''prop1'') # (''run'', PyCallable) #
      [(''prop2'', PyStr ''prop2'')])
     = [(''prop1'', PyStr ''prop1''), (''prop2'', PyStr ''prop2'')] \<and>
   blank ''   '' \<and>
   class_properties_to_str sample_runtime
     (Some ((''_hidden'', PyInt 1) # (''prop1'', PyStr ''prop1'') # (''run'', PyCallable) #
            [(''prop2'', PyStr ''prop2'')]))
     (PyStr ''   '') [] = (Ok (PyStr ''prop1: prop1\<newline>prop2: prop2\<newline>''), [])"
proof -
  have h: "public_attributes
     ((''_hidden'', PyInt 1) # (''prop1'', PyStr ''prop1'') # (''run'', PyCallable) #
      [(''prop2'', PyStr ''prop2'')])
     = [(''prop1'', PyStr ''prop1''), (''prop2'', PyStr ''prop2'')]"
    by (simp add: public_attributes_def)
  have b: "blank ''   ''"
    by (simp add: blank_def is_space_def)
  from class_properties_to_str_text [OF h, of sample_runtime "[]" "''   ''"] h b
  show ?thesis by simp
qed

text \<open>
  Claim C9. A call of the formatter without an object returns a failure whose detail is a
  ValidationError with the message "The class object is required."; a call with an
  object and with a title that is supplied and is not a string returns a failure whose
  detail is a ValidationError with the message "The message must be a string."; both
  carry the code 400 and are returned as values.
\<close>

theorem class_properties_to_str_validation:
  "class_properties_to_str rt None title lg =
     (Fail (ValidationError ''One or more validation errors occurred''
              (Some ''The class object is required.'') 400 []), lg) \<and>
   (title \<noteq> PyNone \<and> \<not> is_str title \<longrightarrow>
      class_properties_to_str rt (Some attrs) title lg =
        (Fail (ValidationError ''One or more validation errors occurred''
                 (Some ''The message must be a string.'') 400 []), lg))"
  by (cases title) (simp_all add: validation_error_def)

theorem class_properties_to_str_validation_witness:
  "PyInt 5 \<noteq> PyNone \<and> \<not> is_str (PyInt 5) \<and>
   class_properties_to_str sample_runtime (Some fake_attributes) (PyInt 5) [] =
     (Fail (ValidationError ''One or more validation errors occurred''
              (Some ''The message must be a string.'') 400 []), []) \<and>
   class_properties_to_str sample_runtime None PyNone [] =
     (Fail (ValidationError ''One or more validation errors occurred''
              (Some ''The class object is required.'') 400 []), [])"
  using class_properties_to_str_validation [of sample_runtime "PyInt 5" "[]" fake_attributes]
    class_properties_to_str_validation [of sample_runtime PyNone "[]" fake_attributes]
  by simp

subsection \<open>Logging the properties of an object\<close>





end
